theory Spec2Isabelle
  imports Complex_Main
begin

section \<open>Values and errors of the Python program\<close>

text \<open>
  The program is \<^verbatim>\<open>Composite_HE_EC4.py\<close>: the buckling-curve function
  \<^verbatim>\<open>chi_coeff\<close> and the column design routine \<^verbatim>\<open>composite_HE_ec4\<close>.
  Python floats are embedded as the real numbers they approximate: rounding, overflow and
  NaN are outside this model, every statement below is about the exact arithmetic of the
  formulas. A Python number is a float or, after a fractional power of a negative float,
  a complex number.
\<close>

datatype py_num = PyFloat real | PyComplex complex

text \<open>
  The exceptions the two functions can raise: the \<^verbatim>\<open>ValueError\<close> of line 24 (invalid
  buckling curve), the \<^verbatim>\<open>ValueError\<close> of \<^verbatim>\<open>math.sqrt\<close> on a negative argument
  (math domain error), and the \<^verbatim>\<open>ZeroDivisionError\<close> of a float division by zero.
\<close>

datatype py_error = ValueError_invalid_curve | ValueError_math_domain | ZeroDivisionError

text \<open>
  \<^verbatim>\<open>x ** 0.5\<close> on a float: the square root for \<open>x \<ge> 0\<close>; for a negative float Python 3
  returns the complex number \<open>\<bar>x\<bar> ** 0.5 * (cos (pi/2) + i sin (pi/2))\<close>, here with its
  exact value \<open>i * sqrt (- x)\<close>.
\<close>

definition float_pow_half :: "real \<Rightarrow> py_num" where
  "float_pow_half x = (if x < 0 then PyComplex (Complex 0 (sqrt (- x))) else PyFloat (sqrt x))"

text \<open>\<^verbatim>\<open>x + n\<close> for a float \<open>x\<close>: the sum is complex as soon as \<open>n\<close> is.\<close>

fun py_add :: "real \<Rightarrow> py_num \<Rightarrow> py_num" where
  "py_add x (PyFloat y) = PyFloat (x + y)"
| "py_add x (PyComplex z) = PyComplex (complex_of_real x + z)"

text \<open>\<^verbatim>\<open>x / n\<close> for a float \<open>x\<close>: division by a zero float or complex raises.\<close>

fun py_truediv :: "real \<Rightarrow> py_num \<Rightarrow> py_error + py_num" where
  "py_truediv x (PyFloat y) = (if y = 0 then Inl ZeroDivisionError else Inr (PyFloat (x / y)))"
| "py_truediv x (PyComplex z) =
     (if z = 0 then Inl ZeroDivisionError else Inr (PyComplex (complex_of_real x / z)))"

section \<open>The buckling curves: \<^verbatim>\<open>chi_coeff\<close>\<close>

record curve =
  alpha :: real
  lambda_1 :: real

text \<open>The dictionary \<^verbatim>\<open>lines\<close> of lines 16 to 21.\<close>

definition lines :: "(string \<times> curve) list" where
  "lines =
     [(''a'', \<lparr>alpha = 0.21, lambda_1 = 1.0\<rparr>),
      (''b'', \<lparr>alpha = 0.34, lambda_1 = 1.0\<rparr>),
      (''c'', \<lparr>alpha = 0.49, lambda_1 = 1.0\<rparr>),
      (''d'', \<lparr>alpha = 0.76, lambda_1 = 1.0\<rparr>)]"

text \<open>
  Lines 23 to 32. The lookup fails with the \<^verbatim>\<open>ValueError\<close> of line 24; the division of
  line 28 and the division of line 30 raise on a zero divisor; the power of line 30 is
  Python's float power.
\<close>

definition chi_coeff :: "real \<Rightarrow> string \<Rightarrow> py_error + py_num" where
  "chi_coeff lambda_value line_type =
     (case map_of lines line_type of
        None \<Rightarrow> Inl ValueError_invalid_curve
      | Some entry \<Rightarrow>
          if lambda_1 entry = 0 then Inl ZeroDivisionError
          else
            let bar_lambda = lambda_value / lambda_1 entry;
                phi = 0.5 * (1 + alpha entry * (bar_lambda - 0.2) + bar_lambda\<^sup>2)
            in py_truediv 1 (py_add phi (float_pow_half (phi\<^sup>2 - bar_lambda\<^sup>2))))"

text \<open>
  The intermediate quantities of lines 29 and 30 for an imperfection factor \<open>a\<close>, as
  functions of the relative slenderness, to state results about them: \<^verbatim>\<open>phi\<close>, the
  divisor of line 30 when the root is real, and the quotient.
\<close>

definition phi_of :: "real \<Rightarrow> real \<Rightarrow> real" where
  "phi_of a l = 0.5 * (1 + a * (l - 0.2) + l\<^sup>2)"

definition den_of :: "real \<Rightarrow> real \<Rightarrow> real" where
  "den_of a l = phi_of a l + sqrt ((phi_of a l)\<^sup>2 - l\<^sup>2)"

definition chi_of :: "real \<Rightarrow> real \<Rightarrow> real" where
  "chi_of a l = 1 / den_of a l"

definition valid_curves :: "string set" where
  "valid_curves = {''a'', ''b'', ''c'', ''d''}"

definition alpha_of :: "string \<Rightarrow> real" where
  "alpha_of line_type = (case map_of lines line_type of Some entry \<Rightarrow> alpha entry | None \<Rightarrow> 0)"

section \<open>The column design: \<^verbatim>\<open>composite_HE_ec4\<close>\<close>

text \<open>
  The local variables of \<^verbatim>\<open>composite_HE_ec4\<close> when line 107 has been executed, under the
  names the source gives them.
\<close>

record frame =
  fyd :: real
  fcd :: real
  fsd :: real
  I_c :: real
  Ec_eff :: real
  EI_eff :: real
  N_cr :: real
  A_c :: real
  Npl_rk :: real
  Npl_rd :: real
  lambda_k :: real
  chi :: py_num
  h_n :: real
  W_plc :: real
  M_max_rd :: real
  N_d_rd :: real
  M_b_rd :: real
  M_c_rd :: real
  N_b_rd :: real

text \<open>
  Lines 52 to 107, one binding for each assignment, in the order of the source. The
  arguments are the twelve parameters; \<^verbatim>\<open>A_st\<close> and \<^verbatim>\<open>As_b\<close> are assigned again at
  lines 80 and 81, as here. The statements that can raise are the division by
  \<^verbatim>\<open>L**2\<close> (line 79), the division by \<^verbatim>\<open>N_cr\<close> and \<^verbatim>\<open>math.sqrt\<close> (line 89), the
  call of \<^verbatim>\<open>chi_coeff\<close> (line 90) and the two divisions of line 94; the divisors of
  lines 57 to 59 and 76 are non-zero constants.
\<close>

definition composite_HE_ec4_frame ::
  "real \<Rightarrow> real \<Rightarrow> real \<Rightarrow> real \<Rightarrow> real \<Rightarrow> real \<Rightarrow> real \<Rightarrow> real \<Rightarrow> real \<Rightarrow> real \<Rightarrow> real \<Rightarrow> real
    \<Rightarrow> py_error + frame" where
  "composite_HE_ec4_frame L b h A_st I_st As_b I_by fy fc fs Ec Es =
     (let gamma_M = 1.0;
          gamma_C = 1.5;
          gamma_B = 1.15;
          fyd = fy / gamma_M;
          fcd = 0.85 * fc / gamma_C;
          fsd = fs / gamma_B;
          E_sm = Es * 1000;
          E_cm = Ec * 1000;
          phi_t = 2.5;
          N_ed = 2200000;
          N_gd = 1400000;
          b_c = b / 1000;
          h_c = h / 1000;
          I_s = I_st / 100000000;
          I_b = I_by / 100000000;
          I_c = (1 / 12) * b_c * h_c ^ 3 - I_s - I_b;
          Ec_eff = E_cm / (1 + (N_gd / N_ed) * phi_t);
          EI_eff = E_sm * I_s + 0.6 * Ec_eff * I_c + I_b * 200000
      in
      if L\<^sup>2 = 0 then Inl ZeroDivisionError
      else
        let N_cr = EI_eff * pi\<^sup>2 / L\<^sup>2;
            A_st = A_st / 10000;
            As_b = As_b / 10000;
            A_c = (b_c * h_c) - (A_st + As_b);
            Npl_rk = fy * A_st + fsd * As_b + fc * A_c;
            Npl_rd = fyd * A_st + fsd * As_b + fcd * A_c
        in
        if N_cr = 0 then Inl ZeroDivisionError
        else if Npl_rk / N_cr < 0 then Inl ValueError_math_domain
        else
          let lambda_k = sqrt (Npl_rk / N_cr) in
          case chi_coeff lambda_k ''c'' of
            Inl e \<Rightarrow> Inl e
          | Inr r \<Rightarrow>
              let chi = r;
                  t_w = 1 / 100
              in
              if 0.85 * fcd = 0 then Inl ZeroDivisionError
              else if 2 * (b_c - t_w + (2 * t_w * (fyd / (0.85 * fcd)))) = 0
              then Inl ZeroDivisionError
              else
                let h_n = A_c / (2 * (b_c - t_w + (2 * t_w * (fyd / (0.85 * fcd)))));
                    W_pla = 1283 * 0.000001;
                    W_pls = 40 * 0.000001;
                    W_plc = (b_c * h_c\<^sup>2) / 4 - W_pla - W_pls;
                    M_max_rd = W_pla * fyd + 0.5 * W_plc * fcd + W_pls * fsd;
                    N_d_rd = 0.5 * A_c * fcd;
                    M_b_rd = M_max_rd - (2 * h_n\<^sup>2 * t_w / 6 * fsd)
                               - (2 * h_n\<^sup>2 * (b_c - t_w) / 6) * fcd;
                    M_c_rd = M_b_rd;
                    N_b_rd = A_c * fcd
                in Inr \<lparr>fyd = fyd, fcd = fcd, fsd = fsd, I_c = I_c, Ec_eff = Ec_eff,
                        EI_eff = EI_eff, N_cr = N_cr, A_c = A_c, Npl_rk = Npl_rk,
                        Npl_rd = Npl_rd, lambda_k = lambda_k, chi = chi, h_n = h_n,
                        W_plc = W_plc, M_max_rd = M_max_rd, N_d_rd = N_d_rd,
                        M_b_rd = M_b_rd, M_c_rd = M_c_rd, N_b_rd = N_b_rd\<rparr>)"




text \<open>
  The values of lines 74 to 94 that decide whether the function runs to its end, as
  functions of the arguments: the concrete second moment of area, the effective stiffness,
  the critical load, the concrete area, the characteristic plastic resistance and the
  divisor of \<^verbatim>\<open>h_n\<close>. \<open>runs_to_end\<close> says that none of the raising statements
  of lines 79, 89 and 94 raises.
\<close>


definition I_c_of :: "real \<Rightarrow> real \<Rightarrow> real \<Rightarrow> real \<Rightarrow> real" where
  "I_c_of b h I_st I_by =
     (1 / 12) * (b / 1000) * (h / 1000) ^ 3 - I_st / 100000000 - I_by / 100000000"

definition EI_eff_of :: "real \<Rightarrow> real \<Rightarrow> real \<Rightarrow> real \<Rightarrow> real \<Rightarrow> real \<Rightarrow> real" where
  "EI_eff_of b h I_st I_by Ec Es =
     (Es * 1000) * (I_st / 100000000)
     + 0.6 * ((Ec * 1000) / (1 + (1400000 / 2200000) * 2.5)) * I_c_of b h I_st I_by
     + (I_by / 100000000) * 200000"

definition N_cr_of :: "real \<Rightarrow> real \<Rightarrow> real \<Rightarrow> real \<Rightarrow> real \<Rightarrow> real \<Rightarrow> real \<Rightarrow> real" where
  "N_cr_of L b h I_st I_by Ec Es = EI_eff_of b h I_st I_by Ec Es * pi\<^sup>2 / L\<^sup>2"

definition A_c_of :: "real \<Rightarrow> real \<Rightarrow> real \<Rightarrow> real \<Rightarrow> real" where
  "A_c_of b h A_st As_b = (b / 1000) * (h / 1000) - (A_st / 10000 + As_b / 10000)"

definition Npl_rk_of :: "real \<Rightarrow> real \<Rightarrow> real \<Rightarrow> real \<Rightarrow> real \<Rightarrow> real \<Rightarrow> real \<Rightarrow> real" where
  "Npl_rk_of b h A_st As_b fy fc fs =
     fy * (A_st / 10000) + (fs / 1.15) * (As_b / 10000) + fc * A_c_of b h A_st As_b"

definition h_n_divisor :: "real \<Rightarrow> real \<Rightarrow> real \<Rightarrow> real" where
  "h_n_divisor b fy fc =
     2 * (b / 1000 - 1 / 100 + (2 * (1 / 100) * ((fy / 1.0) / (0.85 * (0.85 * fc / 1.5)))))"

definition runs_to_end ::
  "real \<Rightarrow> real \<Rightarrow> real \<Rightarrow> real \<Rightarrow> real \<Rightarrow> real \<Rightarrow> real \<Rightarrow> real \<Rightarrow> real \<Rightarrow> real \<Rightarrow> real \<Rightarrow> real
    \<Rightarrow> bool" where
  "runs_to_end L b h A_st I_st As_b I_by fy fc fs Ec Es =
     (L\<^sup>2 \<noteq> 0
      \<and> N_cr_of L b h I_st I_by Ec Es \<noteq> 0
      \<and> \<not> Npl_rk_of b h A_st As_b fy fc fs / N_cr_of L b h I_st I_by Ec Es < 0
      \<and> 0.85 * (0.85 * fc / 1.5) \<noteq> 0
      \<and> h_n_divisor b fy fc \<noteq> 0)"



section \<open>Facts about \<^verbatim>\<open>chi_coeff\<close>\<close>

lemma map_of_lines_None: "map_of lines c = None \<longleftrightarrow> c \<notin> valid_curves"
  by (simp add: lines_def valid_curves_def)

lemma alpha_of_valid:
  "c \<in> valid_curves \<Longrightarrow> alpha_of c \<in> {0.21, 0.34, 0.49, 0.76}"
  by (auto simp: alpha_of_def lines_def valid_curves_def)

lemma map_of_lines_valid:
  "c \<in> valid_curves \<Longrightarrow> map_of lines c = Some \<lparr>alpha = alpha_of c, lambda_1 = 1\<rparr>"
  by (auto simp: alpha_of_def lines_def valid_curves_def)

lemma chi_coeff_valid:
  assumes "c \<in> valid_curves"
  shows "chi_coeff l c =
    py_truediv 1 (py_add (phi_of (alpha_of c) l)
      (float_pow_half ((phi_of (alpha_of c) l)\<^sup>2 - l\<^sup>2)))"
  by (simp add: chi_coeff_def map_of_lines_valid [OF assms] phi_of_def Let_def)

subsection \<open>The formula of lines 29 and 30 over the reals\<close>


lemma phi_of_alt: "phi_of a l = (1 + a * (l - 1/5) + l\<^sup>2) / 2"
  by (simp add: phi_of_def)

lemma phi_of_gt:
  assumes "0 < a" "a \<le> 1" "0 \<le> l"
  shows "l < phi_of a l"
proof -
  have eq: "2 * (phi_of a l - l) = (1 - l)\<^sup>2 + a * (l - 1/5)"
    by (simp add: phi_of_alt power2_eq_square field_simps)
  have "0 < (1 - l)\<^sup>2 + a * (l - 1/5)"
  proof (cases "1/5 \<le> l")
    case True
    then have "0 \<le> a * (l - 1/5)" using assms by simp
    moreover have "0 \<le> (1 - l)\<^sup>2" by simp
    moreover have "0 < (1 - l)\<^sup>2 \<or> 0 < a * (l - 1/5)"
    proof (cases "l = 1")
      case True then show ?thesis using assms by simp
    next
      case False then show ?thesis by simp
    qed
    ultimately show ?thesis by linarith
  next
    case False
    then have "4/5 \<le> 1 - l" by simp
    then have "(4/5::real)\<^sup>2 \<le> (1 - l)\<^sup>2" by (intro power_mono) simp_all
    then have "16/25 \<le> (1 - l)\<^sup>2" by (simp add: power2_eq_square)
    moreover have "0 \<le> a * l" using assms by simp
    moreover have "a * (l - 1/5) = a * l - a / 5" by (simp add: algebra_simps)
    ultimately show ?thesis using assms by linarith
  qed
  then have "0 < 2 * (phi_of a l - l)" by (simp only: eq)
  then show ?thesis by simp
qed

lemma sq_arg_pos:
  assumes "0 < a" "a \<le> 1" "0 \<le> l"
  shows "0 < (phi_of a l)\<^sup>2 - l\<^sup>2"
proof -
  have "l < phi_of a l" by (rule phi_of_gt [OF assms])
  then have "l\<^sup>2 < (phi_of a l)\<^sup>2" using assms(3) by (intro power_strict_mono) simp_all
  then show ?thesis by simp
qed




lemma den_of_eq:
  assumes "0 \<le> (phi_of a l)\<^sup>2 - l\<^sup>2"
  shows "(den_of a l)\<^sup>2 + l\<^sup>2 = 2 * den_of a l * phi_of a l"
proof -
  have "(den_of a l - phi_of a l)\<^sup>2 = (phi_of a l)\<^sup>2 - l\<^sup>2"
    using assms by (simp add: den_of_def)
  then show ?thesis by (simp add: power2_eq_square algebra_simps)
qed

lemma den_of_pos:
  assumes "0 < a" "a \<le> 1" "0 \<le> l"
  shows "0 < den_of a l"
proof -
  have "0 < phi_of a l" using phi_of_gt [OF assms] assms(3) by linarith
  moreover have "0 \<le> sqrt ((phi_of a l)\<^sup>2 - l\<^sup>2)"
    using sq_arg_pos [OF assms] by simp
  ultimately show ?thesis unfolding den_of_def by linarith
qed





subsection \<open>What \<^verbatim>\<open>chi_coeff\<close> returns\<close>


lemma alpha_of_bounds:
  assumes "c \<in> valid_curves"
  shows "0 < alpha_of c" "alpha_of c \<le> 1"
  using alpha_of_valid [OF assms] by auto

lemma chi_coeff_real:
  assumes "c \<in> valid_curves" "0 \<le> (phi_of (alpha_of c) l)\<^sup>2 - l\<^sup>2" "den_of (alpha_of c) l \<noteq> 0"
  shows "chi_coeff l c = Inr (PyFloat (chi_of (alpha_of c) l))"
  using assms(2,3)
  by (simp add: chi_coeff_valid [OF assms(1)] float_pow_half_def chi_of_def den_of_def)

lemma chi_coeff_nonneg:
  assumes "c \<in> valid_curves" "0 \<le> l"
  shows "chi_coeff l c = Inr (PyFloat (chi_of (alpha_of c) l))"
proof -
  note a = alpha_of_bounds [OF assms(1)]
  have "0 \<le> (phi_of (alpha_of c) l)\<^sup>2 - l\<^sup>2" using sq_arg_pos [OF a assms(2)] by simp
  moreover have "den_of (alpha_of c) l \<noteq> 0" using den_of_pos [OF a assms(2)] by simp
  ultimately show ?thesis by (rule chi_coeff_real [OF assms(1)])
qed

lemma chi_coeff_complex:
  assumes "c \<in> valid_curves" "(phi_of (alpha_of c) l)\<^sup>2 < l\<^sup>2"
  shows "chi_coeff l c =
    Inr (PyComplex (1 / Complex (phi_of (alpha_of c) l) (sqrt (l\<^sup>2 - (phi_of (alpha_of c) l)\<^sup>2))))"
proof -
  have "0 < sqrt (l\<^sup>2 - (phi_of (alpha_of c) l)\<^sup>2)" using assms(2) by simp
  then have nz: "Complex (phi_of (alpha_of c) l) (sqrt (l\<^sup>2 - (phi_of (alpha_of c) l)\<^sup>2)) \<noteq> 0"
    by (simp add: complex_eq_iff)
  have sum: "complex_of_real (phi_of (alpha_of c) l) + Complex 0 (sqrt (l\<^sup>2 - (phi_of (alpha_of c) l)\<^sup>2))
    = Complex (phi_of (alpha_of c) l) (sqrt (l\<^sup>2 - (phi_of (alpha_of c) l)\<^sup>2))"
    by (simp add: complex_eq_iff)
  show ?thesis
    using assms(2) nz
    by (simp add: chi_coeff_valid [OF assms(1)] float_pow_half_def sum)
qed

lemma chi_of_zero: "0 < a \<Longrightarrow> a \<le> 1 \<Longrightarrow> chi_of a 0 = 1 / (1 - a / 5)"
  by (simp add: chi_of_def den_of_def phi_of_alt)

lemma py_truediv_not_invalid: "py_truediv x n \<noteq> Inl ValueError_invalid_curve"
  by (cases n) simp_all

lemma den_of_nonzero:
  assumes "0 < a" "a \<le> 1" "0 \<le> (phi_of a l)\<^sup>2 - l\<^sup>2"
  shows "den_of a l \<noteq> 0"
proof
  assume z: "den_of a l = 0"
  have s0: "0 \<le> sqrt ((phi_of a l)\<^sup>2 - l\<^sup>2)" using assms(3) by simp
  from den_of_eq [OF assms(3)] z have "l\<^sup>2 = 0" by simp
  then have l0: "l = 0" by simp
  have "0 < phi_of a l" using assms l0 by (simp add: phi_of_alt)
  with s0 have "0 < den_of a l" unfolding den_of_def by linarith
  with z show False by simp
qed

lemma chi_coeff_no_error:
  assumes "c \<in> valid_curves"
  shows "\<exists>v. chi_coeff l c = Inr v"
proof (cases "(phi_of (alpha_of c) l)\<^sup>2 < l\<^sup>2")
  case True
  then show ?thesis using chi_coeff_complex [OF assms] by blast
next
  case False
  then have arg: "0 \<le> (phi_of (alpha_of c) l)\<^sup>2 - l\<^sup>2" by simp
  have "den_of (alpha_of c) l \<noteq> 0"
    using den_of_nonzero [OF alpha_of_bounds [OF assms] arg] .
  then show ?thesis using chi_coeff_real [OF assms arg] by blast
qed

section \<open>Properties of \<^verbatim>\<open>chi_coeff\<close>\<close>

text \<open>
  Claim C8. For every slenderness value, \<^verbatim>\<open>chi_coeff\<close> raises the \<^verbatim>\<open>ValueError\<close> of
  line 24 (the invalid-curve error) exactly when the curve argument is not one of the four
  symbols \<^verbatim>\<open>'a'\<close>, \<^verbatim>\<open>'b'\<close>, \<^verbatim>\<open>'c'\<close>, \<^verbatim>\<open>'d'\<close>: it is raised for every other string, for
  example \<^verbatim>\<open>'e'\<close>, and never for one of the four.
\<close>

theorem chi_coeff_invalid_curve_iff:
  "chi_coeff l c = Inl ValueError_invalid_curve \<longleftrightarrow> c \<notin> {''a'', ''b'', ''c'', ''d''}"
proof (cases "c \<in> valid_curves")
  case True
  then show ?thesis
    by (simp add: chi_coeff_valid py_truediv_not_invalid) (simp add: valid_curves_def)
next
  case False
  then have "map_of lines c = None" by (simp add: map_of_lines_None)
  then have "chi_coeff l c = Inl ValueError_invalid_curve" by (simp add: chi_coeff_def)
  then show ?thesis using False by (simp add: valid_curves_def)
qed

text \<open>The statement at the curves \<^verbatim>\<open>'e'\<close> and \<^verbatim>\<open>'a'\<close> with slenderness 3.\<close>

theorem chi_coeff_invalid_curve_iff_witness:
  "chi_coeff 3 ''e'' = Inl ValueError_invalid_curve
   \<and> chi_coeff 3 ''a'' \<noteq> Inl ValueError_invalid_curve"
  using chi_coeff_invalid_curve_iff [of 3 "''e''"] chi_coeff_invalid_curve_iff [of 3 "''a''"]
  by simp








text \<open>
  Claim C5, as stated, fails: for curve \<^verbatim>\<open>'d'\<close> and slenderness \<open>- 1\<close> line 29 gives
  \<open>phi = 0.544\<close>, so \<open>phi\<^sup>2 < 1\<close>, and \<^verbatim>\<open>chi_coeff\<close> raises nothing: the float power of
  line 30 yields a complex number and the function returns a complex value.
\<close>

theorem chi_coeff_negative_root_argument_no_error:
  "chi_coeff (- 1) ''d'' = Inr (PyComplex (1 / Complex (68 / 125) (sqrt (11001 / 15625))))"
  using chi_coeff_complex [of "''d''" "- 1"]
  by (simp add: valid_curves_def phi_of_alt alpha_of_def lines_def power2_eq_square)

text \<open>
  Claim C5, amended. \<^verbatim>\<open>chi_coeff\<close> has no check of the square-root argument: for every
  valid curve symbol and every slenderness with \<open>phi\<^sup>2 < l\<^sup>2\<close> it raises no error and returns
  the complex number \<open>1 / (phi + i * sqrt (l\<^sup>2 - phi\<^sup>2))\<close>.
\<close>

theorem chi_coeff_complex_result:
  assumes "c \<in> {''a'', ''b'', ''c'', ''d''}"
    and "(phi_of (alpha_of c) l)\<^sup>2 < l\<^sup>2"
  shows "chi_coeff l c =
    Inr (PyComplex (1 / Complex (phi_of (alpha_of c) l) (sqrt (l\<^sup>2 - (phi_of (alpha_of c) l)\<^sup>2))))"
proof -
  have c: "c \<in> valid_curves" using assms(1) by (simp add: valid_curves_def)
  show ?thesis by (rule chi_coeff_complex [OF c assms(2)])
qed

text \<open>The statement at curve \<^verbatim>\<open>'d'\<close> and slenderness \<open>- 1\<close>.\<close>

theorem chi_coeff_complex_result_witness:
  "''d'' \<in> {''a'', ''b'', ''c'', ''d''}
   \<and> (phi_of (alpha_of ''d'') (- 1))\<^sup>2 < (- 1)\<^sup>2
   \<and> chi_coeff (- 1) ''d'' =
      Inr (PyComplex (1 / Complex (phi_of (alpha_of ''d'') (- 1))
        (sqrt ((- 1)\<^sup>2 - (phi_of (alpha_of ''d'') (- 1))\<^sup>2))))"
proof -
  have h: "(phi_of (alpha_of ''d'') (- 1))\<^sup>2 < (- 1)\<^sup>2"
    by (simp add: phi_of_alt alpha_of_def lines_def power2_eq_square)
  show ?thesis using h chi_coeff_complex_result [of "''d''" "- 1", OF _ h] by simp
qed

text \<open>The value of curve \<^verbatim>\<open>'b'\<close> at slenderness 1, enclosed to five decimals.\<close>

lemma sqrt_oracle_bounds:
  "53897 / 100000 < sqrt (290496 / 1000000)" "sqrt (290496 / 1000000) < 53898 / 100000"
proof -
  show "53897 / 100000 < sqrt (290496 / 1000000)"
    by (rule real_less_rsqrt) (simp add: power2_eq_square)
  show "sqrt (290496 / 1000000) < 53898 / 100000"
    by (rule real_less_lsqrt) (simp_all add: power2_eq_square)
qed

lemma chi_coeff_b_one:
  "chi_coeff 1 ''b'' = Inr (PyFloat (1 / (1.136 + sqrt (1.136\<^sup>2 - 1))))"
proof -
  have "''b'' \<in> valid_curves" by (simp add: valid_curves_def)
  from chi_coeff_nonneg [OF this, of 1] show ?thesis
    by (simp add: chi_of_def den_of_def phi_of_alt alpha_of_def lines_def)
qed

lemma oracle_value_bounds:
  "59702 / 100000 < 1 / (1.136 + sqrt (1.136\<^sup>2 - 1))"
  "1 / (1.136 + sqrt (1.136\<^sup>2 - 1)) < 59703 / 100000"
proof -
  have arg: "(1136 / 1000 :: real)\<^sup>2 - 1 = 290496 / 1000000" by (simp add: power2_eq_square)
  note b = sqrt_oracle_bounds
  have dec: "(1.136::real) = 1136 / 1000" by simp
  have pos: "0 < 1136 / 1000 + sqrt (290496 / 1000000)" using b(1) by linarith
  have "59702 / 100000 < 1 / (1136 / 1000 + sqrt (290496 / 1000000))"
    using pos b(2) by (simp add: field_simps)
  then show "59702 / 100000 < 1 / (1.136 + sqrt (1.136\<^sup>2 - 1))"
    by (simp only: dec arg)
  have "1 / (1136 / 1000 + sqrt (290496 / 1000000)) < 59703 / 100000"
    using pos b(1) by (simp add: field_simps)
  then show "1 / (1.136 + sqrt (1.136\<^sup>2 - 1)) < 59703 / 100000"
    by (simp only: dec arg)
qed

text \<open>
  Claim C6, as stated, fails in its last part: for curve \<^verbatim>\<open>'b'\<close> and slenderness 1 the
  function returns \<open>1 / (1.136 + sqrt (1.136\<^sup>2 - 1))\<close>, and that number is below 0.6, so
  it is not approximately 0.6673.
\<close>

theorem chi_coeff_oracle_not_0_6673:
  "chi_coeff 1 ''b'' = Inr (PyFloat (1 / (1.136 + sqrt (1.136\<^sup>2 - 1))))
   \<and> 1 / (1.136 + sqrt (1.136\<^sup>2 - 1)) < (0.6::real)"
  using chi_coeff_b_one oracle_value_bounds(2) by simp

text \<open>
  Claim C6, amended. For curve \<^verbatim>\<open>'b'\<close> (\<open>alpha = 0.34\<close>) and slenderness 1, line 29 gives
  \<open>phi = 0.5 * (1 + 0.34 * 0.8 + 1) = 1.136\<close> and \<^verbatim>\<open>chi_coeff\<close> returns
  \<open>1 / (1.136 + sqrt (1.136\<^sup>2 - 1))\<close>, which is 0.5970 to four decimals.
\<close>

theorem chi_coeff_oracle:
  "phi_of (alpha_of ''b'') 1 = 0.5 * (1 + 0.34 * 0.8 + 1)
   \<and> phi_of (alpha_of ''b'') 1 = 1.136
   \<and> chi_coeff 1 ''b'' = Inr (PyFloat (1 / (1.136 + sqrt (1.136\<^sup>2 - 1))))
   \<and> \<bar>1 / (1.136 + sqrt (1.136\<^sup>2 - 1)) - 0.5970\<bar> < (0.00005::real)"
proof -
  have "phi_of (alpha_of ''b'') 1 = 1.136"
    by (simp add: phi_of_alt alpha_of_def lines_def)
  moreover have "\<bar>1 / (1.136 + sqrt (1.136\<^sup>2 - 1)) - 0.5970\<bar> < (0.00005::real)"
    using oracle_value_bounds by (simp add: abs_less_iff)
  ultimately show ?thesis using chi_coeff_b_one by simp
qed

section \<open>Facts about \<^verbatim>\<open>composite_HE_ec4\<close>\<close>

lemma case_chi_coeff_c:
  "case_sum g f (chi_coeff l ''c'') = f (projr (chi_coeff l ''c''))"
proof -
  have "''c'' \<in> valid_curves" by (simp add: valid_curves_def)
  from chi_coeff_no_error [OF this, of l] obtain v where "chi_coeff l ''c'' = Inr v" ..
  then show ?thesis by simp
qed

lemma composite_HE_ec4_frame_Inr_iff:
  "(\<exists>fr. composite_HE_ec4_frame L b h A_st I_st As_b I_by fy fc fs Ec Es = Inr fr)
   \<longleftrightarrow> runs_to_end L b h A_st I_st As_b I_by fy fc fs Ec Es"
  unfolding composite_HE_ec4_frame_def runs_to_end_def N_cr_of_def Npl_rk_of_def
    EI_eff_of_def I_c_of_def A_c_of_def h_n_divisor_def Let_def case_chi_coeff_c
  by (simp split: if_splits)

lemma composite_HE_ec4_frame_InrD:
  assumes "composite_HE_ec4_frame L b h A_st I_st As_b I_by fy fc fs Ec Es = Inr fr"
  shows "fyd fr = fy / 1.0"
    and "fcd fr = 0.85 * fc / 1.5"
    and "fsd fr = fs / 1.15"
    and "I_c fr = I_c_of b h I_st I_by"
    and "A_c fr = A_c_of b h A_st As_b"
    and "Npl_rk fr = fy * (A_st / 10000) + fsd fr * (As_b / 10000) + fc * A_c fr"
    and "Npl_rd fr = fyd fr * (A_st / 10000) + fsd fr * (As_b / 10000) + fcd fr * A_c fr"
    and "N_b_rd fr = A_c fr * fcd fr"
    and "N_d_rd fr = 0.5 * A_c fr * fcd fr"
    and "M_c_rd fr = M_b_rd fr"
    and "M_b_rd fr = M_max_rd fr - (2 * (h_n fr)\<^sup>2 * (1 / 100) / 6 * fsd fr)
                       - (2 * (h_n fr)\<^sup>2 * (b / 1000 - 1 / 100) / 6) * fcd fr"
    and "h_n fr = A_c fr / h_n_divisor b fy fc"
    and "M_max_rd fr = 1283 * 0.000001 * fyd fr
           + 0.5 * ((b / 1000 * (h / 1000)\<^sup>2) / 4 - 1283 * 0.000001 - 40 * 0.000001) * fcd fr
           + 40 * 0.000001 * fsd fr"
  using assms
  by (auto simp: composite_HE_ec4_frame_def I_c_of_def A_c_of_def h_n_divisor_def Let_def
      split: if_splits sum.splits)

lemma runs_to_endI:
  assumes "L \<noteq> 0" and "0 < EI_eff_of b h I_st I_by Ec Es"
    and "0 \<le> Npl_rk_of b h A_st As_b fy fc fs" and "0 < fc" and "0 < fy" and "10 \<le> b"
  shows "runs_to_end L b h A_st I_st As_b I_by fy fc fs Ec Es"
proof -
  have L2: "0 < L\<^sup>2" using assms(1) by simp
  have "0 < EI_eff_of b h I_st I_by Ec Es * pi\<^sup>2" using assms(2) by simp
  then have N: "0 < N_cr_of L b h I_st I_by Ec Es"
    unfolding N_cr_of_def using L2 by (rule divide_pos_pos)
  then have "0 \<le> Npl_rk_of b h A_st As_b fy fc fs / N_cr_of L b h I_st I_by Ec Es"
    using assms(3) by simp
  moreover have "0 < (fy / 1.0) / (0.85 * (0.85 * fc / 1.5))"
    using assms(4,5) by simp
  then have "0 < h_n_divisor b fy fc"
    unfolding h_n_divisor_def using assms(6) by simp
  ultimately show ?thesis
    unfolding runs_to_end_def using assms(1,4) N by simp
qed



lemma runs_scenario: "runs_to_end 4 300 300 149.8 19340 8 1000 355 30 500 34 200"
  by (rule runs_to_endI)
    (simp_all add: EI_eff_of_def I_c_of_def Npl_rk_of_def A_c_of_def power3_eq_cube)






section \<open>Properties of \<^verbatim>\<open>composite_HE_ec4\<close>\<close>





text \<open>
  Claim C2 against the code. For the 300 x 300 mm column (length 4 m, profile 149.8 cm2
  and 19340 cm4, reinforcement 8 cm2 and 1000 cm4, strengths 355, 30 and 500 MPa) the
  characteristic plastic resistance \<^verbatim>\<open>Npl_rk\<close> of line 85 is
  \<open>fy * A_st + fsd * As_b + fc * A_c\<close> with the design strength \<open>fsd = fs / 1.15\<close> of the
  reinforcement, which differs from the sum \<open>fy * A_st + fs * As_b + fc * A_c\<close> over the
  nominal strengths that the claim states.
\<close>

theorem composite_HE_ec4_Npl_rk_uses_design_strength:
  "map_sum id Npl_rk (composite_HE_ec4_frame 4 300 300 149.8 19340 8 1000 355 30 500 34 200)
     = Inr (355 * 0.01498 + (500 / 1.15) * 0.0008 + 30 * 0.07422)
   \<and> 355 * 0.01498 + (500 / 1.15) * 0.0008 + 30 * 0.07422
       \<noteq> (355 * 0.01498 + 500 * 0.0008 + 30 * 0.07422 :: real)"
proof -
  from runs_scenario obtain fr
    where fr: "composite_HE_ec4_frame 4 300 300 149.8 19340 8 1000 355 30 500 34 200 = Inr fr"
    using composite_HE_ec4_frame_Inr_iff by blast
  have "Npl_rk fr = 355 * 0.01498 + (500 / 1.15) * 0.0008 + 30 * 0.07422"
    using composite_HE_ec4_frame_InrD(3,5,6) [OF fr] by (simp add: A_c_of_def)
  then show ?thesis using fr by simp
qed




end
